theory Spec2Isabelle
  imports Main "HOL-Library.Finite_Map" "HOL-Library.Monad_Syntax"
begin

section \<open>The InfraEnv asset of the agent installer (pkg/asset/agent/manifests/infraenv.go)\<close>

text \<open>
  The asset builds the InfraEnv manifest from the install configuration and the agent
  configuration (\<open>Generate\<close>), or reads it back from a file (\<open>Load\<close>); both paths end in
  the validator \<open>finish\<close>. The receiver \<open>i *InfraEnv\<close> is mutated in place by the source;
  here every method takes the asset and returns the asset it leaves behind.
\<close>

subsection \<open>Errors and outcomes\<close>

text \<open>
  Go errors as values. \<open>errors_New\<close> stands for \<open>errors.New\<close> and \<open>errors.Errorf\<close> (the
  formatted message), \<open>errors_Wrap\<close> for \<open>errors.Wrap\<close> and \<open>errors.Wrapf\<close>. The two
  \<open>fetch\<close> errors are what a file fetcher may report, \<open>yaml_error\<close> what the YAML
  library reports.
\<close>

datatype error =
    errors_New string
  | errors_Wrap error string
  | fetch_NotExist
  | fetch_Other string
  | yaml_error string

text \<open>\<open>os.IsNotExist\<close> recognises the fetcher's does-not-exist error and nothing else.\<close>

fun os_IsNotExist :: "error \<Rightarrow> bool" where
  "os_IsNotExist fetch_NotExist = True"
| "os_IsNotExist _ = False"

text \<open>A call either returns its results or panics (a nil pointer dereference).\<close>

datatype 'a outcome = Returned 'a | Panic string

definition nil_dereference :: string where
  "nil_dereference = ''invalid memory address or nil pointer dereference''"

subsection \<open>The manifest: aiv1beta1.InfraEnv\<close>

text \<open>
  Modelled from the spec: the type \<open>aiv1beta1.InfraEnv\<close> is declared outside the source
  file. The records hold the attributes of the spec's Manifest, which are the fields
  \<open>Generate\<close> writes: identity, cluster reference, SSH key, pull secret reference, label
  selector, CPU architecture, proxy and NTP sources. A Go pointer is an \<open>option\<close>, a Go
  \<open>map[string]string\<close> a finite map, a slice the list of its elements.
\<close>

record ObjectMeta =
  om_Name :: string
  om_Namespace :: string

record ClusterReference =
  cr_Name :: string
  cr_Namespace :: string

record LocalObjectReference =
  lor_Name :: string

record LabelSelector =
  MatchLabels :: "(string, string) fmap"

record Proxy =
  HTTPProxy :: string
  HTTPSProxy :: string
  NoProxy :: string

record InfraEnvSpec =
  ClusterRef :: "ClusterReference option"
  SSHAuthorizedKey :: string
  PullSecretRef :: "LocalObjectReference option"
  NMStateConfigLabelSelector :: LabelSelector
  CpuArchitecture :: string
  spec_Proxy :: "Proxy option"
  spec_AdditionalNTPSources :: "string list"

record aiv1beta1_InfraEnv =
  ObjectMeta :: ObjectMeta
  Spec :: InfraEnvSpec

subsection \<open>The dependencies: install configuration and agent configuration\<close>

text \<open>
  Modelled from the spec: the types of the two parent assets are declared outside the
  source file. The install configuration is a nullable object with the SSH key, the
  control-plane machine pool (a pointer, read by \<open>Generate\<close> without a nil check), the
  optional proxy and the cluster's metadata; the agent configuration is a nullable object
  with the NTP sources.
\<close>

record MachinePool =
  Architecture :: string

record types_Proxy =
  tp_HTTPProxy :: string
  tp_HTTPSProxy :: string
  tp_NoProxy :: string

record InstallConfig =
  ic_ObjectMeta :: ObjectMeta
  SSHKey :: string
  ControlPlane :: "MachinePool option"
  ic_Proxy :: "types_Proxy option"

record OptionalInstallConfig =
  oic_Config :: "InstallConfig option"

record agent_Config =
  AdditionalNTPSources :: "string list"

record AgentConfig =
  ac_Config :: "agent_Config option"

text \<open>
  \<open>asset.Parents\<close> after the pipeline has resolved the two declared dependencies;
  \<open>dependencies.Get\<close> then finds both.
\<close>

record Parents =
  p_installConfig :: OptionalInstallConfig
  p_agentConfig :: AgentConfig

text \<open>
  The helper lookups over the install configuration live in another file of the package;
  \<open>Generate\<close> takes them as a parameter.
\<close>

record helpers =
  getInfraEnvName :: "OptionalInstallConfig \<Rightarrow> string"
  getObjectMetaNamespace :: "OptionalInstallConfig \<Rightarrow> string"
  getClusterDeploymentName :: "OptionalInstallConfig \<Rightarrow> string"
  getPullSecretName :: "OptionalInstallConfig \<Rightarrow> string"
  getNMStateConfigLabels :: "OptionalInstallConfig \<Rightarrow> (string, string) fmap"
  getProxy :: "OptionalInstallConfig \<Rightarrow> Proxy option"

subsection \<open>arch.RpmArch and the architecture constants\<close>

text \<open>
  Modelled from the spec: \<open>arch.RpmArch\<close> is the spec's architecture normalizer, a
  function of a library outside the source file. It maps the Go names to the RPM names,
  as the source's comments say (amd64 to x86_64, arm64 to aarch64), and passes every other
  tag through unchanged.
\<close>

definition RpmArch :: "string \<Rightarrow> string" where
  "RpmArch a =
     (if a = ''amd64'' then ''x86_64''
      else if a = ''arm64'' then ''aarch64''
      else a)"

text \<open>
  Modelled from the spec: the constants \<open>types.ArchitectureAMD64\<close>,
  \<open>types.ArchitectureARM64\<close> and \<open>types.ArchitecturePPC64LE\<close> are declared outside the
  source file; they are the Go names of the three supported architectures.
\<close>

definition ArchitectureAMD64 :: string where
  "ArchitectureAMD64 = ''amd64''"

definition ArchitectureARM64 :: string where
  "ArchitectureARM64 = ''arm64''"

definition ArchitecturePPC64LE :: string where
  "ArchitecturePPC64LE = ''ppc64le''"

subsection \<open>strings.Trim\<close>

text \<open>
  Go's \<open>strings.Trim(s, cutset)\<close> removes every leading and every trailing character of
  \<open>s\<close> that occurs in \<open>cutset\<close>, and nothing in between.
\<close>

definition strings_TrimLeft :: "string \<Rightarrow> string \<Rightarrow> string" where
  "strings_TrimLeft s cutset = dropWhile (\<lambda>c. c \<in> set cutset) s"

definition strings_TrimRight :: "string \<Rightarrow> string \<Rightarrow> string" where
  "strings_TrimRight s cutset = rev (dropWhile (\<lambda>c. c \<in> set cutset) (rev s))"

definition strings_Trim :: "string \<Rightarrow> string \<Rightarrow> string" where
  "strings_Trim s cutset = strings_TrimRight (strings_TrimLeft s cutset) cutset"

text \<open>The cutset of the source, \<open>"|\n\t"\<close>: pipe, line feed, tab.\<close>

definition ssh_cutset :: string where
  "ssh_cutset = [CHR ''|'', CHR 0x0A, CHR 0x09]"

subsection \<open>The YAML library\<close>

text \<open>
  Modelled from the spec: \<open>yaml.Marshal\<close> and \<open>yaml.UnmarshalStrict\<close> belong to a library
  outside the source file; the spec gives their contract (serialize, and a strict
  deserialize that fails on a field the schema does not have). The content of a file is
  modelled after parsing: either bytes that are no YAML document at all, or the document
  as a tree of nulls, strings, sequences and mappings. A mapping is a finite map, so a key
  occurs once.
\<close>

datatype yaml = YNull | YStr string | YSeq "yaml list" | YMap "(string, yaml) fmap"

datatype bytes = Malformed | Document yaml

text \<open>
  Encoding follows the schema. A field tagged \<open>omitempty\<close> is left out when it is empty
  (an empty string, a nil pointer, an empty slice or map); a struct is always written.
\<close>

definition omitempty_string :: "string \<Rightarrow> string \<Rightarrow> (string, yaml) fmap \<Rightarrow> (string, yaml) fmap" where
  "omitempty_string k s m = (if s = [] then m else fmupd k (YStr s) m)"

definition omitempty_pointer :: "string \<Rightarrow> yaml option \<Rightarrow> (string, yaml) fmap \<Rightarrow> (string, yaml) fmap" where
  "omitempty_pointer k p m = (case p of None \<Rightarrow> m | Some y \<Rightarrow> fmupd k y m)"

definition omitempty_strings :: "string \<Rightarrow> string list \<Rightarrow> (string, yaml) fmap \<Rightarrow> (string, yaml) fmap" where
  "omitempty_strings k xs m = (if xs = [] then m else fmupd k (YSeq (map YStr xs)) m)"

definition omitempty_labels :: "string \<Rightarrow> (string, string) fmap \<Rightarrow> (string, yaml) fmap \<Rightarrow> (string, yaml) fmap" where
  "omitempty_labels k l m = (if l = fmempty then m else fmupd k (YMap (fmmap YStr l)) m)"

definition enc_ObjectMeta :: "ObjectMeta \<Rightarrow> yaml" where
  "enc_ObjectMeta om =
     YMap (omitempty_string ''name'' (om_Name om)
          (omitempty_string ''namespace'' (om_Namespace om) fmempty))"

definition enc_ClusterReference :: "ClusterReference \<Rightarrow> yaml" where
  "enc_ClusterReference r =
     YMap (fmupd ''name'' (YStr (cr_Name r))
          (fmupd ''namespace'' (YStr (cr_Namespace r)) fmempty))"

definition enc_LocalObjectReference :: "LocalObjectReference \<Rightarrow> yaml" where
  "enc_LocalObjectReference r = YMap (omitempty_string ''name'' (lor_Name r) fmempty)"

definition enc_LabelSelector :: "LabelSelector \<Rightarrow> yaml" where
  "enc_LabelSelector l = YMap (omitempty_labels ''matchLabels'' (MatchLabels l) fmempty)"

definition enc_Proxy :: "Proxy \<Rightarrow> yaml" where
  "enc_Proxy p =
     YMap (omitempty_string ''httpProxy'' (HTTPProxy p)
          (omitempty_string ''httpsProxy'' (HTTPSProxy p)
          (omitempty_string ''noProxy'' (NoProxy p) fmempty)))"

definition enc_InfraEnvSpec :: "InfraEnvSpec \<Rightarrow> yaml" where
  "enc_InfraEnvSpec s =
     YMap (omitempty_pointer ''proxy'' (map_option enc_Proxy (spec_Proxy s))
          (omitempty_strings ''additionalNTPSources'' (spec_AdditionalNTPSources s)
          (omitempty_string ''sshAuthorizedKey'' (SSHAuthorizedKey s)
          (fmupd ''pullSecretRef''
             (case PullSecretRef s of None \<Rightarrow> YNull | Some r \<Rightarrow> enc_LocalObjectReference r)
          (fmupd ''nmStateConfigLabelSelector'' (enc_LabelSelector (NMStateConfigLabelSelector s))
          (omitempty_pointer ''clusterRef'' (map_option enc_ClusterReference (ClusterRef s))
          (omitempty_string ''cpuArchitecture'' (CpuArchitecture s) fmempty)))))))"

definition enc_InfraEnv :: "aiv1beta1_InfraEnv \<Rightarrow> yaml" where
  "enc_InfraEnv e =
     YMap (fmupd ''metadata'' (enc_ObjectMeta (ObjectMeta e))
          (fmupd ''spec'' (enc_InfraEnvSpec (Spec e)) fmempty))"

text \<open>The spec expects no serialization error for a manifest, and the model has none.\<close>

definition yaml_Marshal :: "aiv1beta1_InfraEnv \<Rightarrow> error + bytes" where
  "yaml_Marshal e = Inr (Document (enc_InfraEnv e))"

text \<open>
  Decoding follows the schema too. A field that is absent or null keeps its zero value;
  a node of the wrong shape fails; a mapping decoded into a struct fails when it has a
  key outside the struct's fields (strict decoding). \<open>None\<close> is failure.
\<close>

fun dec_string :: "yaml option \<Rightarrow> string option" where
  "dec_string None = Some []"
| "dec_string (Some YNull) = Some []"
| "dec_string (Some (YStr s)) = Some s"
| "dec_string (Some _) = None"

fun dec_strings :: "yaml option \<Rightarrow> string list option" where
  "dec_strings None = Some []"
| "dec_strings (Some YNull) = Some []"
| "dec_strings (Some (YSeq ys)) = those (map (\<lambda>y. dec_string (Some y)) ys)"
| "dec_strings (Some _) = None"

fun dec_labels :: "yaml option \<Rightarrow> (string, string) fmap option" where
  "dec_labels None = Some fmempty"
| "dec_labels (Some YNull) = Some fmempty"
| "dec_labels (Some (YMap m)) =
     (if fmpred (\<lambda>k v. dec_string (Some v) \<noteq> None) m
      then Some (fmmap (\<lambda>v. the (dec_string (Some v))) m) else None)"
| "dec_labels (Some _) = None"

text \<open>A struct field: zero value when absent or null.\<close>

fun dec_value :: "'a \<Rightarrow> (yaml \<Rightarrow> 'a option) \<Rightarrow> yaml option \<Rightarrow> 'a option" where
  "dec_value zero dec None = Some zero"
| "dec_value zero dec (Some YNull) = Some zero"
| "dec_value zero dec (Some y) = dec y"

text \<open>A pointer field: nil when absent or null.\<close>

definition dec_pointer :: "(yaml \<Rightarrow> 'a option) \<Rightarrow> yaml option \<Rightarrow> 'a option option" where
  "dec_pointer dec y = dec_value None (\<lambda>v. map_option Some (dec v)) y"

text \<open>A mapping decoded into a struct with the given field names.\<close>

fun dec_struct :: "string set \<Rightarrow> ((string, yaml) fmap \<Rightarrow> 'a option) \<Rightarrow> yaml \<Rightarrow> 'a option" where
  "dec_struct names body (YMap m) = (if fmdom' m \<subseteq> names then body m else None)"
| "dec_struct names body _ = None"

definition dec_ObjectMeta :: "yaml \<Rightarrow> ObjectMeta option" where
  "dec_ObjectMeta = dec_struct {''name'', ''namespace''} (\<lambda>m. do {
     n \<leftarrow> dec_string (fmlookup m ''name'');
     ns \<leftarrow> dec_string (fmlookup m ''namespace'');
     Some \<lparr>om_Name = n, om_Namespace = ns\<rparr> })"

definition dec_ClusterReference :: "yaml \<Rightarrow> ClusterReference option" where
  "dec_ClusterReference = dec_struct {''name'', ''namespace''} (\<lambda>m. do {
     n \<leftarrow> dec_string (fmlookup m ''name'');
     ns \<leftarrow> dec_string (fmlookup m ''namespace'');
     Some \<lparr>cr_Name = n, cr_Namespace = ns\<rparr> })"

definition dec_LocalObjectReference :: "yaml \<Rightarrow> LocalObjectReference option" where
  "dec_LocalObjectReference = dec_struct {''name''} (\<lambda>m. do {
     n \<leftarrow> dec_string (fmlookup m ''name'');
     Some \<lparr>lor_Name = n\<rparr> })"

definition dec_LabelSelector :: "yaml \<Rightarrow> LabelSelector option" where
  "dec_LabelSelector = dec_struct {''matchLabels''} (\<lambda>m. do {
     l \<leftarrow> dec_labels (fmlookup m ''matchLabels'');
     Some \<lparr>MatchLabels = l\<rparr> })"

definition dec_Proxy :: "yaml \<Rightarrow> Proxy option" where
  "dec_Proxy = dec_struct {''httpProxy'', ''httpsProxy'', ''noProxy''} (\<lambda>m. do {
     h \<leftarrow> dec_string (fmlookup m ''httpProxy'');
     hs \<leftarrow> dec_string (fmlookup m ''httpsProxy'');
     n \<leftarrow> dec_string (fmlookup m ''noProxy'');
     Some \<lparr>HTTPProxy = h, HTTPSProxy = hs, NoProxy = n\<rparr> })"

definition InfraEnvSpec_fields :: "string set" where
  "InfraEnvSpec_fields =
     {''proxy'', ''additionalNTPSources'', ''sshAuthorizedKey'', ''pullSecretRef'',
      ''nmStateConfigLabelSelector'', ''clusterRef'', ''cpuArchitecture''}"

definition dec_InfraEnvSpec :: "yaml \<Rightarrow> InfraEnvSpec option" where
  "dec_InfraEnvSpec = dec_struct InfraEnvSpec_fields (\<lambda>m. do {
     px \<leftarrow> dec_pointer dec_Proxy (fmlookup m ''proxy'');
     ntp \<leftarrow> dec_strings (fmlookup m ''additionalNTPSources'');
     key \<leftarrow> dec_string (fmlookup m ''sshAuthorizedKey'');
     ps \<leftarrow> dec_pointer dec_LocalObjectReference (fmlookup m ''pullSecretRef'');
     sel \<leftarrow> dec_value \<lparr>MatchLabels = fmempty\<rparr> dec_LabelSelector
              (fmlookup m ''nmStateConfigLabelSelector'');
     cr \<leftarrow> dec_pointer dec_ClusterReference (fmlookup m ''clusterRef'');
     cpu \<leftarrow> dec_string (fmlookup m ''cpuArchitecture'');
     Some \<lparr>ClusterRef = cr, SSHAuthorizedKey = key, PullSecretRef = ps,
           NMStateConfigLabelSelector = sel, CpuArchitecture = cpu,
           spec_Proxy = px, spec_AdditionalNTPSources = ntp\<rparr> })"

definition zero_ObjectMeta :: ObjectMeta where
  "zero_ObjectMeta = \<lparr>om_Name = [], om_Namespace = []\<rparr>"

definition zero_InfraEnvSpec :: InfraEnvSpec where
  "zero_InfraEnvSpec =
     \<lparr>ClusterRef = None, SSHAuthorizedKey = [], PullSecretRef = None,
      NMStateConfigLabelSelector = \<lparr>MatchLabels = fmempty\<rparr>, CpuArchitecture = [],
      spec_Proxy = None, spec_AdditionalNTPSources = []\<rparr>"

definition dec_InfraEnv :: "yaml \<Rightarrow> aiv1beta1_InfraEnv option" where
  "dec_InfraEnv = dec_struct {''metadata'', ''spec''} (\<lambda>m. do {
     om \<leftarrow> dec_value zero_ObjectMeta dec_ObjectMeta (fmlookup m ''metadata'');
     sp \<leftarrow> dec_value zero_InfraEnvSpec dec_InfraEnvSpec (fmlookup m ''spec'');
     Some \<lparr>ObjectMeta = om, Spec = sp\<rparr> })"

definition yaml_UnmarshalStrict :: "bytes \<Rightarrow> error + aiv1beta1_InfraEnv" where
  "yaml_UnmarshalStrict b =
     (case b of
        Malformed \<Rightarrow> Inl (yaml_error ''error converting YAML to JSON'')
      | Document y \<Rightarrow>
          (case dec_value \<lparr>ObjectMeta = zero_ObjectMeta, Spec = zero_InfraEnvSpec\<rparr>
                  dec_InfraEnv (Some y) of
             None \<Rightarrow> Inl (yaml_error ''error unmarshaling JSON'')
           | Some e \<Rightarrow> Inr e))"

subsection \<open>The asset\<close>

text \<open>\<open>asset.File\<close>: a file name and the file's content.\<close>

record asset_File =
  Filename :: string
  Data :: bytes

text \<open>The struct \<open>InfraEnv\<close>; both fields are pointers and start nil.\<close>

record InfraEnv =
  File :: "asset_File option"
  Config :: "aiv1beta1_InfraEnv option"

text \<open>
  Modelled from the spec: the constant \<open>clusterManifestDir\<close> is declared in another file
  of the package; it is the fixed manifest directory. \<open>filepath.Join\<close> puts one separator
  between its two arguments.
\<close>

definition clusterManifestDir :: string where
  "clusterManifestDir = ''cluster-manifests''"

definition filepath_Join :: "string \<Rightarrow> string \<Rightarrow> string" where
  "filepath_Join dir name = dir @ ''/'' @ name"

definition infraEnvFilename :: string where
  "infraEnvFilename = filepath_Join clusterManifestDir ''infraenv.yaml''"

text \<open>
  \<open>finish\<close>: an error when there is no manifest, or when its CpuArchitecture is none of
  the RPM names of amd64, arm64 and ppc64le and not empty; \<open>None\<close> is the nil error.
\<close>

definition finish :: "InfraEnv \<Rightarrow> error option" where
  "finish i =
     (case Config i of
        None \<Rightarrow> Some (errors_New ''missing configuration or manifest file'')
      | Some c \<Rightarrow>
          (let a = CpuArchitecture (Spec c) in
           if a = RpmArch ArchitectureAMD64 \<or> a = RpmArch ArchitectureARM64
              \<or> a = RpmArch ArchitecturePPC64LE \<or> a = []
           then None
           else Some (errors_New (''Config.Spec.CpuArchitecture '' @ a @ '' is not supported ''))))"

definition Files :: "InfraEnv \<Rightarrow> asset_File list" where
  "Files i = (case File i of Some f \<Rightarrow> [f] | None \<Rightarrow> [])"

text \<open>
  \<open>Generate\<close>. With no install configuration the block is skipped and \<open>finish\<close> judges
  the asset as it is. Otherwise the manifest is built; reading the architecture of a nil
  control plane panics, before the asset is touched. The manifest is stored in \<open>Config\<close>
  before it is serialized, and the file in \<open>File\<close> before \<open>finish\<close> runs.
\<close>

definition Generate :: "helpers \<Rightarrow> Parents \<Rightarrow> InfraEnv \<Rightarrow> (error option \<times> InfraEnv) outcome" where
  "Generate h dependencies i =
     (let installConfig = p_installConfig dependencies;
          agentConfig = p_agentConfig dependencies
      in case oic_Config installConfig of
           None \<Rightarrow> Returned (finish i, i)
         | Some ic \<Rightarrow>
             (let infraEnv =
                    \<lparr>ObjectMeta =
                       \<lparr>om_Name = getInfraEnvName h installConfig,
                        om_Namespace = getObjectMetaNamespace h installConfig\<rparr>,
                     Spec =
                       \<lparr>ClusterRef =
                          Some \<lparr>cr_Name = getClusterDeploymentName h installConfig,
                                cr_Namespace = getObjectMetaNamespace h installConfig\<rparr>,
                        SSHAuthorizedKey = strings_Trim (SSHKey ic) ssh_cutset,
                        PullSecretRef = Some \<lparr>lor_Name = getPullSecretName h installConfig\<rparr>,
                        NMStateConfigLabelSelector =
                          \<lparr>MatchLabels = getNMStateConfigLabels h installConfig\<rparr>,
                        CpuArchitecture = [],
                        spec_Proxy = None,
                        spec_AdditionalNTPSources = []\<rparr>\<rparr>
              in case ControlPlane ic of
                   None \<Rightarrow> Panic nil_dereference
                 | Some cp \<Rightarrow>
                     (let infraEnv =
                            (if Architecture cp \<noteq> []
                             then infraEnv\<lparr>Spec := (Spec infraEnv)
                                    \<lparr>CpuArchitecture := RpmArch (Architecture cp)\<rparr>\<rparr>
                             else infraEnv);
                          infraEnv =
                            (if ic_Proxy ic \<noteq> None
                             then infraEnv\<lparr>Spec := (Spec infraEnv)
                                    \<lparr>spec_Proxy := getProxy h installConfig\<rparr>\<rparr>
                             else infraEnv);
                          infraEnv =
                            (case ac_Config agentConfig of
                               Some ac \<Rightarrow> infraEnv\<lparr>Spec := (Spec infraEnv)
                                    \<lparr>spec_AdditionalNTPSources := AdditionalNTPSources ac\<rparr>\<rparr>
                             | None \<Rightarrow> infraEnv);
                          i = i\<lparr>Config := Some infraEnv\<rparr>
                      in case yaml_Marshal infraEnv of
                           Inl err \<Rightarrow>
                             Returned (Some (errors_Wrap err
                               ''failed to marshal agent installer infraEnv''), i)
                         | Inr infraEnvData \<Rightarrow>
                             (let i = i\<lparr>File := Some \<lparr>Filename = infraEnvFilename,
                                                       Data = infraEnvData\<rparr>\<rparr>
                              in Returned (finish i, i)))))"

text \<open>
  \<open>asset.FileFetcher\<close>: \<open>FetchByName\<close> gives the file of that name or an error.
\<close>

type_synonym FileFetcher = "string \<Rightarrow> error + asset_File"

definition FetchByName :: "FileFetcher \<Rightarrow> string \<Rightarrow> error + asset_File" where
  "FetchByName f name = f name"

text \<open>
  \<open>Load\<close> returns the pair (found, error) and the asset. \<open>File\<close> and \<open>Config\<close> are
  assigned after the decoding and the re-normalization of the architecture, and before
  \<open>finish\<close> runs.
\<close>

definition Load :: "FileFetcher \<Rightarrow> InfraEnv \<Rightarrow> (bool \<times> error option) \<times> InfraEnv" where
  "Load f i =
     (case FetchByName f infraEnvFilename of
        Inl err \<Rightarrow>
          if os_IsNotExist err then ((False, None), i)
          else ((False, Some (errors_Wrap err
                  (''failed to load '' @ infraEnvFilename @ '' file''))), i)
      | Inr file \<Rightarrow>
          (case yaml_UnmarshalStrict (Data file) of
             Inl err \<Rightarrow>
               ((False, Some (errors_Wrap err (''failed to unmarshal '' @ infraEnvFilename))), i)
           | Inr config \<Rightarrow>
               (let config =
                      (if CpuArchitecture (Spec config) \<noteq> []
                       then config\<lparr>Spec := (Spec config)
                              \<lparr>CpuArchitecture := RpmArch (CpuArchitecture (Spec config))\<rparr>\<rparr>
                       else config);
                    i = i\<lparr>File := Some file, Config := Some config\<rparr>
                in case finish i of
                     Some err \<Rightarrow> ((False, Some err), i)
                   | None \<Rightarrow> ((True, None), i))))"

text \<open>The asset before any call: both fields nil.\<close>

definition Uninitialized :: InfraEnv where
  "Uninitialized = \<lparr>File = None, Config = None\<rparr>"

subsection \<open>Documents with a field outside the schema\<close>

text \<open>
  Modelled from the spec: "the byte stream contains fields not present in the Manifest's
  defined schema". The schema is followed from the top of the document: \<open>extra_keys\<close>
  says that the node is a mapping with a key outside the given field names, and \<open>field\<close>
  steps into a field of a mapping.
\<close>

fun extra_keys :: "string set \<Rightarrow> yaml option \<Rightarrow> bool" where
  "extra_keys names (Some (YMap m)) = (\<not> fmdom' m \<subseteq> names)"
| "extra_keys names _ = False"

fun field :: "string \<Rightarrow> yaml option \<Rightarrow> yaml option" where
  "field k (Some (YMap m)) = fmlookup m k"
| "field k _ = None"

definition has_unknown_field :: "yaml \<Rightarrow> bool" where
  "has_unknown_field d =
     (let top = Some d; md = field ''metadata'' top; sp = field ''spec'' top
      in extra_keys {''metadata'', ''spec''} top
         \<or> extra_keys {''name'', ''namespace''} md
         \<or> extra_keys InfraEnvSpec_fields sp
         \<or> extra_keys {''httpProxy'', ''httpsProxy'', ''noProxy''} (field ''proxy'' sp)
         \<or> extra_keys {''name''} (field ''pullSecretRef'' sp)
         \<or> extra_keys {''matchLabels''} (field ''nmStateConfigLabelSelector'' sp)
         \<or> extra_keys {''name'', ''namespace''} (field ''clusterRef'' sp))"

subsection \<open>Concrete inputs\<close>

text \<open>
  Modelled from the spec: one instance of the helper lookups ("helper accessors for derived
  names": infra-env name, namespace, cluster-deployment name, pull-secret name, NMState
  label selector, proxy), reading the cluster's metadata and proxy from the install
  configuration. It is used only where a concrete input is evaluated.
\<close>

definition cluster_name :: "OptionalInstallConfig \<Rightarrow> string" where
  "cluster_name ic = (case oic_Config ic of None \<Rightarrow> [] | Some c \<Rightarrow> om_Name (ic_ObjectMeta c))"

definition cluster_namespace :: "OptionalInstallConfig \<Rightarrow> string" where
  "cluster_namespace ic =
     (case oic_Config ic of None \<Rightarrow> [] | Some c \<Rightarrow> om_Namespace (ic_ObjectMeta c))"

definition cluster_helpers :: helpers where
  "cluster_helpers =
     \<lparr>getInfraEnvName = cluster_name,
      getObjectMetaNamespace = cluster_namespace,
      getClusterDeploymentName = cluster_name,
      getPullSecretName = (\<lambda>ic. cluster_name ic @ ''-pull-secret''),
      getNMStateConfigLabels =
        (\<lambda>ic. fmupd ''infraenvs.agent-install.openshift.io'' (cluster_name ic) fmempty),
      getProxy =
        (\<lambda>ic. case oic_Config ic of
                None \<Rightarrow> None
              | Some c \<Rightarrow>
                  map_option
                    (\<lambda>p. \<lparr>HTTPProxy = tp_HTTPProxy p, HTTPSProxy = tp_HTTPSProxy p,
                          NoProxy = tp_NoProxy p\<rparr>)
                    (ic_Proxy c))\<rparr>"

text \<open>
  An install configuration for the cluster \<open>ostest\<close> with the given SSH key and control
  plane, and no proxy; the parents holding it, with no agent configuration.
\<close>

definition install_config :: "string \<Rightarrow> MachinePool option \<Rightarrow> InstallConfig" where
  "install_config key cp =
     \<lparr>ic_ObjectMeta = \<lparr>om_Name = ''ostest'', om_Namespace = ''cluster0''\<rparr>,
      SSHKey = key, ControlPlane = cp, ic_Proxy = None\<rparr>"

definition parents_of :: "InstallConfig option \<Rightarrow> Parents" where
  "parents_of c =
     \<lparr>p_installConfig = \<lparr>oic_Config = c\<rparr>, p_agentConfig = \<lparr>ac_Config = None\<rparr>\<rparr>"

text \<open>The SSH key of the spec's scenario: two spaces, a pipe, the key, two spaces, a line feed.\<close>

definition scenario_key :: string where
  "scenario_key = ''  |ssh-rsa AAA...  '' @ [CHR 0x0A]"

text \<open>A fetcher that has no file, and a fetcher that serves one content under every name.\<close>

definition no_file :: FileFetcher where
  "no_file name = Inl fetch_NotExist"

definition serving :: "bytes \<Rightarrow> FileFetcher" where
  "serving b name = Inr \<lparr>Filename = name, Data = b\<rparr>"

text \<open>A document whose spec has the architecture \<open>a\<close>, and one with a field \<open>bogus\<close> besides.\<close>

definition document_with_arch :: "string \<Rightarrow> yaml" where
  "document_with_arch a =
     YMap (fmupd ''spec'' (YMap (fmupd ''cpuArchitecture'' (YStr a) fmempty)) fmempty)"

definition document_with_extra_field :: yaml where
  "document_with_extra_field =
     YMap (fmupd ''spec''
             (YMap (fmupd ''bogus'' (YStr ''1'')
                   (fmupd ''cpuArchitecture'' (YStr ''x86_64'') fmempty))) fmempty)"

text \<open>
  The manifest that \<open>Generate\<close> is expected to build for the cluster \<open>ostest\<close>, given
  the SSH key and the architecture it should hold, and the file that carries a manifest.
\<close>

definition ostest_manifest :: "string \<Rightarrow> string \<Rightarrow> aiv1beta1_InfraEnv" where
  "ostest_manifest key a =
     \<lparr>ObjectMeta = \<lparr>om_Name = ''ostest'', om_Namespace = ''cluster0''\<rparr>,
      Spec =
        \<lparr>ClusterRef = Some \<lparr>cr_Name = ''ostest'', cr_Namespace = ''cluster0''\<rparr>,
         SSHAuthorizedKey = key,
         PullSecretRef = Some \<lparr>lor_Name = ''ostest-pull-secret''\<rparr>,
         NMStateConfigLabelSelector =
           \<lparr>MatchLabels = fmupd ''infraenvs.agent-install.openshift.io'' ''ostest'' fmempty\<rparr>,
         CpuArchitecture = a,
         spec_Proxy = None,
         spec_AdditionalNTPSources = []\<rparr>\<rparr>"

definition file_of :: "aiv1beta1_InfraEnv \<Rightarrow> asset_File" where
  "file_of m = \<lparr>Filename = infraEnvFilename, Data = Document (enc_InfraEnv m)\<rparr>"

section \<open>Properties of the YAML model\<close>

subsection \<open>Lookups in an encoded mapping\<close>

lemma fmpred_True: "fmpred (\<lambda>k v. True) l"
  by (simp add: fmpred_iff)

lemma dec_string_omitempty [simp]:
  "dec_string (fmlookup (omitempty_string k s m) k') =
     (if k = k' \<and> s \<noteq> [] then Some s else dec_string (fmlookup m k'))"
  by (simp add: omitempty_string_def)

lemma lookup_omitempty_string:
  "fmlookup (omitempty_string k s m) k' =
     (if k = k' \<and> s \<noteq> [] then Some (YStr s) else fmlookup m k')"
  by (simp add: omitempty_string_def)

lemma lookup_omitempty_pointer:
  "fmlookup (omitempty_pointer k p m) k' =
     (if k = k' \<and> p \<noteq> None then p else fmlookup m k')"
  by (simp add: omitempty_pointer_def split: option.splits)

lemma lookup_omitempty_strings:
  "fmlookup (omitempty_strings k xs m) k' =
     (if k = k' \<and> xs \<noteq> [] then Some (YSeq (map YStr xs)) else fmlookup m k')"
  by (simp add: omitempty_strings_def)

lemma dom_omitempty_string:
  "fmdom' m \<subseteq> K \<Longrightarrow> k \<in> K \<Longrightarrow> fmdom' (omitempty_string k s m) \<subseteq> K"
  by (simp add: omitempty_string_def)

lemma dom_omitempty_pointer:
  "fmdom' m \<subseteq> K \<Longrightarrow> k \<in> K \<Longrightarrow> fmdom' (omitempty_pointer k p m) \<subseteq> K"
  by (simp add: omitempty_pointer_def split: option.splits)

lemma dom_omitempty_strings:
  "fmdom' m \<subseteq> K \<Longrightarrow> k \<in> K \<Longrightarrow> fmdom' (omitempty_strings k xs m) \<subseteq> K"
  by (simp add: omitempty_strings_def)

lemma dec_pointer_None [simp]: "dec_pointer dec None = Some None"
  by (simp add: dec_pointer_def)

lemma dec_pointer_YMap: "dec_pointer dec (Some (YMap m)) = map_option Some (dec (YMap m))"
  by (simp add: dec_pointer_def)

subsection \<open>Decoding undoes encoding, struct by struct\<close>

lemma decode_ObjectMeta: "dec_ObjectMeta (enc_ObjectMeta om) = Some om"
  by (simp add: dec_ObjectMeta_def enc_ObjectMeta_def dom_omitempty_string)

lemma decode_ClusterReference: "dec_ClusterReference (enc_ClusterReference r) = Some r"
  by (simp add: dec_ClusterReference_def enc_ClusterReference_def)

lemma decode_LocalObjectReference:
  "dec_LocalObjectReference (enc_LocalObjectReference r) = Some r"
  by (simp add: dec_LocalObjectReference_def enc_LocalObjectReference_def dom_omitempty_string)

lemma decode_Proxy: "dec_Proxy (enc_Proxy p) = Some p"
  by (simp add: dec_Proxy_def enc_Proxy_def dom_omitempty_string)

lemma decode_LabelSelector: "dec_LabelSelector (enc_LabelSelector l) = Some l"
  by (simp add: dec_LabelSelector_def enc_LabelSelector_def omitempty_labels_def
        fmpred_True fmap.map_comp comp_def fmap.map_ident)

lemma decode_strings: "those (map ((\<lambda>y. dec_string (Some y)) \<circ> YStr) xs) = Some xs"
  by (induction xs) simp_all

lemma decode_pointer_Proxy: "dec_pointer dec_Proxy (map_option enc_Proxy p) = Some p"
proof (cases p)
  case None
  then show ?thesis by simp
next
  case (Some a)
  obtain m where m: "enc_Proxy a = YMap m"
    by (simp add: enc_Proxy_def)
  have "dec_Proxy (YMap m) = Some a"
    using decode_Proxy [of a] m by simp
  with Some m show ?thesis by (simp add: dec_pointer_YMap)
qed

lemma decode_pointer_ClusterReference:
  "dec_pointer dec_ClusterReference (map_option enc_ClusterReference p) = Some p"
proof (cases p)
  case None
  then show ?thesis by simp
next
  case (Some a)
  obtain m where m: "enc_ClusterReference a = YMap m"
    by (simp add: enc_ClusterReference_def)
  have "dec_ClusterReference (YMap m) = Some a"
    using decode_ClusterReference [of a] m by simp
  with Some m show ?thesis by (simp add: dec_pointer_YMap)
qed

lemma decode_pointer_LocalObjectReference:
  "dec_pointer dec_LocalObjectReference
     (Some (case p of None \<Rightarrow> YNull | Some r \<Rightarrow> enc_LocalObjectReference r)) = Some p"
proof (cases p)
  case None
  then show ?thesis by (simp add: dec_pointer_def)
next
  case (Some a)
  obtain m where m: "enc_LocalObjectReference a = YMap m"
    by (simp add: enc_LocalObjectReference_def)
  have "dec_LocalObjectReference (YMap m) = Some a"
    using decode_LocalObjectReference [of a] m by simp
  with Some m show ?thesis by (simp add: dec_pointer_YMap)
qed

lemma decode_value_LabelSelector:
  "dec_value z dec_LabelSelector (Some (enc_LabelSelector l)) = Some l"
proof -
  obtain m where m: "enc_LabelSelector l = YMap m"
    by (simp add: enc_LabelSelector_def)
  then show ?thesis using decode_LabelSelector [of l] by simp
qed

lemma decode_InfraEnvSpec: "dec_InfraEnvSpec (enc_InfraEnvSpec s) = Some s"
  by (simp add: dec_InfraEnvSpec_def enc_InfraEnvSpec_def InfraEnvSpec_fields_def
      dom_omitempty_string dom_omitempty_pointer dom_omitempty_strings
      lookup_omitempty_pointer lookup_omitempty_strings lookup_omitempty_string
      decode_pointer_Proxy decode_pointer_ClusterReference decode_pointer_LocalObjectReference
      decode_value_LabelSelector decode_strings)

lemma decode_InfraEnv: "dec_InfraEnv (enc_InfraEnv e) = Some e"
proof -
  obtain m where m: "enc_ObjectMeta (ObjectMeta e) = YMap m"
    by (simp add: enc_ObjectMeta_def)
  obtain n where n: "enc_InfraEnvSpec (Spec e) = YMap n"
    by (simp add: enc_InfraEnvSpec_def)
  have 1: "dec_ObjectMeta (YMap m) = Some (ObjectMeta e)"
    using decode_ObjectMeta [of "ObjectMeta e"] m by simp
  have 2: "dec_InfraEnvSpec (YMap n) = Some (Spec e)"
    using decode_InfraEnvSpec [of "Spec e"] n by simp
  show ?thesis by (simp add: dec_InfraEnv_def enc_InfraEnv_def m n 1 2)
qed

lemma UnmarshalStrict_Marshal:
  "yaml_UnmarshalStrict (Document (enc_InfraEnv e)) = Inr e"
  using decode_InfraEnv [of e]
  by (simp add: yaml_UnmarshalStrict_def enc_InfraEnv_def)

section \<open>The architecture normalizer\<close>

lemma RpmArch_supported:
  "RpmArch ArchitectureAMD64 = ''x86_64''"
  "RpmArch ArchitectureARM64 = ''aarch64''"
  "RpmArch ArchitecturePPC64LE = ''ppc64le''"
  by (simp_all add: RpmArch_def ArchitectureAMD64_def ArchitectureARM64_def
        ArchitecturePPC64LE_def)

text \<open>
  Claim C7. For every string \<open>x\<close>, normalizing twice gives what normalizing once gives:
  the RPM names and every tag that is passed through are fixed points of \<open>RpmArch\<close>.
\<close>

theorem RpmArch_idempotent: "RpmArch (RpmArch x) = RpmArch x"
  by (simp add: RpmArch_def)

section \<open>The validator and the two paths\<close>

lemma finish_Some:
  "finish \<lparr>File = f, Config = Some m\<rparr> =
     (if CpuArchitecture (Spec m) \<in> {[], ''x86_64'', ''aarch64'', ''ppc64le''} then None
      else Some (errors_New (''Config.Spec.CpuArchitecture '' @ CpuArchitecture (Spec m)
                   @ '' is not supported '')))"
  by (auto simp add: finish_def RpmArch_supported Let_def)

lemma finish_None_iff:
  "finish i = None \<longleftrightarrow>
     (\<exists>m. Config i = Some m \<and> CpuArchitecture (Spec m) \<in> {[], ''x86_64'', ''aarch64'', ''ppc64le''})"
  by (auto simp add: finish_def RpmArch_supported Let_def split: option.splits)

lemma Generate_skip:
  "oic_Config (p_installConfig d) = None \<Longrightarrow> Generate h d i = Returned (finish i, i)"
  by (simp add: Generate_def)

lemma Generate_panic:
  "oic_Config (p_installConfig d) = Some ic \<Longrightarrow> ControlPlane ic = None \<Longrightarrow>
   Generate h d i = Panic nil_dereference"
  by (simp add: Generate_def)

lemma Generate_build:
  assumes "oic_Config (p_installConfig d) = Some ic" and "ControlPlane ic = Some cp"
  shows "\<exists>m. Generate h d i =
            Returned (finish \<lparr>File = Some (file_of m), Config = Some m\<rparr>,
                      \<lparr>File = Some (file_of m), Config = Some m\<rparr>)
          \<and> SSHAuthorizedKey (Spec m) = strings_Trim (SSHKey ic) ssh_cutset
          \<and> CpuArchitecture (Spec m) = RpmArch (Architecture cp)"
proof (cases i)
  case (fields f c)
  show ?thesis
    using assms
    by (simp add: Generate_def yaml_Marshal_def file_of_def fields Let_def RpmArch_def
         split: option.splits)
qed

lemma renormalize_empty:
  "CpuArchitecture (Spec c) = [] \<Longrightarrow>
   c\<lparr>Spec := (Spec c)\<lparr>CpuArchitecture := RpmArch (CpuArchitecture (Spec c))\<rparr>\<rparr> = c"
  by (simp add: RpmArch_def)

lemma Load_decoded:
  assumes "FetchByName f infraEnvFilename = Inr file"
    and "yaml_UnmarshalStrict (Data file) = Inr c"
  shows "Load f i =
     (let c' = c\<lparr>Spec := (Spec c)\<lparr>CpuArchitecture := RpmArch (CpuArchitecture (Spec c))\<rparr>\<rparr>;
          i' = \<lparr>File = Some file, Config = Some c'\<rparr>
      in case finish i' of
           Some err \<Rightarrow> ((False, Some err), i')
         | None \<Rightarrow> ((True, None), i'))"
proof -
  obtain f0 c0 where i: "i = \<lparr>File = f0, Config = c0\<rparr>"
    by (cases i) simp
  show ?thesis
  proof (cases "CpuArchitecture (Spec c) = []")
    case True
    with renormalize_empty [of c] assms show ?thesis
      by (simp add: Load_def i)
  next
    case False
    with assms show ?thesis
      by (simp add: Load_def i Let_def)
  qed
qed

section \<open>Strict decoding rejects a field outside the schema\<close>

lemma dec_struct_Some:
  "dec_struct names body y = Some x \<Longrightarrow> \<exists>m. y = YMap m \<and> fmdom' m \<subseteq> names \<and> body m = Some x"
  by (cases y) (auto split: if_splits)

lemma dec_value_struct_Some:
  "dec_value z (dec_struct names body) yo = Some x \<Longrightarrow> \<not> extra_keys names yo"
proof (cases yo)
  case None
  then show ?thesis by simp
next
  case (Some y)
  assume "dec_value z (dec_struct names body) yo = Some x"
  with Some show ?thesis by (cases y) (auto split: if_splits)
qed

lemma dec_pointer_struct_Some:
  "dec_pointer (dec_struct names body) yo = Some x \<Longrightarrow> \<not> extra_keys names yo"
proof (cases yo)
  case None
  then show ?thesis by simp
next
  case (Some y)
  assume "dec_pointer (dec_struct names body) yo = Some x"
  with Some show ?thesis by (cases y) (auto simp add: dec_pointer_def split: if_splits)
qed

lemma dec_InfraEnvSpec_Some:
  assumes "dec_InfraEnvSpec (YMap n) = Some sp"
  shows "fmdom' n \<subseteq> InfraEnvSpec_fields"
    and "\<not> extra_keys {''httpProxy'', ''httpsProxy'', ''noProxy''} (fmlookup n ''proxy'')"
    and "\<not> extra_keys {''name''} (fmlookup n ''pullSecretRef'')"
    and "\<not> extra_keys {''matchLabels''} (fmlookup n ''nmStateConfigLabelSelector'')"
    and "\<not> extra_keys {''name'', ''namespace''} (fmlookup n ''clusterRef'')"
proof -
  from assms show dom: "fmdom' n \<subseteq> InfraEnvSpec_fields"
    by (simp add: dec_InfraEnvSpec_def split: if_splits)
  from assms dom obtain px ps sel cr where
    px: "dec_pointer dec_Proxy (fmlookup n ''proxy'') = Some px" and
    ps: "dec_pointer dec_LocalObjectReference (fmlookup n ''pullSecretRef'') = Some ps" and
    sel: "dec_value \<lparr>MatchLabels = fmempty\<rparr> dec_LabelSelector
            (fmlookup n ''nmStateConfigLabelSelector'') = Some sel" and
    cr: "dec_pointer dec_ClusterReference (fmlookup n ''clusterRef'') = Some cr"
    by (auto simp add: dec_InfraEnvSpec_def bind_eq_Some_conv)
  from px show "\<not> extra_keys {''httpProxy'', ''httpsProxy'', ''noProxy''} (fmlookup n ''proxy'')"
    unfolding dec_Proxy_def by (rule dec_pointer_struct_Some)
  from ps show "\<not> extra_keys {''name''} (fmlookup n ''pullSecretRef'')"
    unfolding dec_LocalObjectReference_def by (rule dec_pointer_struct_Some)
  from sel show "\<not> extra_keys {''matchLabels''} (fmlookup n ''nmStateConfigLabelSelector'')"
    unfolding dec_LabelSelector_def by (rule dec_value_struct_Some)
  from cr show "\<not> extra_keys {''name'', ''namespace''} (fmlookup n ''clusterRef'')"
    unfolding dec_ClusterReference_def by (rule dec_pointer_struct_Some)
qed

lemma field_not_mapping: "(\<And>m. yo \<noteq> Some (YMap m)) \<Longrightarrow> field k yo = None"
  by (cases "(k, yo)" rule: field.cases) auto

lemma decoded_no_unknown_field:
  assumes "dec_value z dec_InfraEnv (Some d) = Some e"
  shows "\<not> has_unknown_field d"
proof (cases "\<exists>m. d = YMap m")
  case False
  then have "field k (Some d) = None" for k
    by (intro field_not_mapping) auto
  moreover from False have "\<not> extra_keys names (Some d)" for names
    by (cases d) auto
  ultimately show ?thesis
    by (simp add: has_unknown_field_def)
next
  case True
  then obtain m where d: "d = YMap m" by blast
  from assms d have top: "fmdom' m \<subseteq> {''metadata'', ''spec''}"
    by (simp add: dec_InfraEnv_def split: if_splits)
  from assms d top obtain om sp where
    om: "dec_value zero_ObjectMeta dec_ObjectMeta (fmlookup m ''metadata'') = Some om" and
    sp: "dec_value zero_InfraEnvSpec dec_InfraEnvSpec (fmlookup m ''spec'') = Some sp"
    by (auto simp add: dec_InfraEnv_def bind_eq_Some_conv)
  from om have md: "\<not> extra_keys {''name'', ''namespace''} (fmlookup m ''metadata'')"
    unfolding dec_ObjectMeta_def by (rule dec_value_struct_Some)
  have inner: "\<not> extra_keys InfraEnvSpec_fields (fmlookup m ''spec'')
      \<and> \<not> extra_keys {''httpProxy'', ''httpsProxy'', ''noProxy''} (field ''proxy'' (fmlookup m ''spec''))
      \<and> \<not> extra_keys {''name''} (field ''pullSecretRef'' (fmlookup m ''spec''))
      \<and> \<not> extra_keys {''matchLabels''} (field ''nmStateConfigLabelSelector'' (fmlookup m ''spec''))
      \<and> \<not> extra_keys {''name'', ''namespace''} (field ''clusterRef'' (fmlookup m ''spec''))"
  proof (cases "\<exists>n. fmlookup m ''spec'' = Some (YMap n)")
    case False
    then have "field k (fmlookup m ''spec'') = None" for k
      by (intro field_not_mapping) auto
    moreover from False have "\<not> extra_keys names (fmlookup m ''spec'')" for names
      by (cases "(names, fmlookup m ''spec'')" rule: extra_keys.cases) auto
    ultimately show ?thesis by simp
  next
    case True
    then obtain n where n: "fmlookup m ''spec'' = Some (YMap n)" by blast
    with sp have "dec_InfraEnvSpec (YMap n) = Some sp" by simp
    from dec_InfraEnvSpec_Some [OF this] n show ?thesis by simp
  qed
  from top md inner show ?thesis
    by (simp add: has_unknown_field_def d)
qed

lemma UnmarshalStrict_unknown_field:
  assumes "has_unknown_field d"
  shows "yaml_UnmarshalStrict (Document d) = Inl (yaml_error ''error unmarshaling JSON'')"
proof -
  let ?z = "\<lparr>ObjectMeta = zero_ObjectMeta, Spec = zero_InfraEnvSpec\<rparr>"
  have "dec_value ?z dec_InfraEnv (Some d) = None"
  proof (cases "dec_value ?z dec_InfraEnv (Some d)")
    case None
    then show ?thesis .
  next
    case (Some e)
    from decoded_no_unknown_field [OF this] assms show ?thesis by simp
  qed
  then show ?thesis
    by (simp add: yaml_UnmarshalStrict_def)
qed

section \<open>The model at concrete inputs\<close>

text \<open>
  The evaluations below are shared by the concrete instances of the claims: the trimmed
  key of the scenario, \<open>Generate\<close> for the cluster \<open>ostest\<close>, the validator on its
  manifest, a fetcher that serves a document, and the decoding of the two sample documents.
\<close>

lemma scenario_key_trimmed: "strings_Trim scenario_key ssh_cutset = ''  |ssh-rsa AAA...  ''"
  by (simp add: strings_Trim_def strings_TrimLeft_def strings_TrimRight_def ssh_cutset_def
        scenario_key_def)

lemma Generate_ostest:
  "Generate cluster_helpers (parents_of (Some (install_config key (Some \<lparr>Architecture = a\<rparr>))))
     Uninitialized =
   Returned
     (finish \<lparr>File = Some (file_of (ostest_manifest (strings_Trim key ssh_cutset) (RpmArch a))),
              Config = Some (ostest_manifest (strings_Trim key ssh_cutset) (RpmArch a))\<rparr>,
      \<lparr>File = Some (file_of (ostest_manifest (strings_Trim key ssh_cutset) (RpmArch a))),
       Config = Some (ostest_manifest (strings_Trim key ssh_cutset) (RpmArch a))\<rparr>)"
  by (simp add: Generate_def cluster_helpers_def parents_of_def install_config_def
        Uninitialized_def ostest_manifest_def file_of_def yaml_Marshal_def cluster_name_def
        cluster_namespace_def RpmArch_def Let_def)

lemma finish_ostest:
  "finish \<lparr>File = f, Config = Some (ostest_manifest key a)\<rparr> =
     (if a \<in> {[], ''x86_64'', ''aarch64'', ''ppc64le''} then None
      else Some (errors_New (''Config.Spec.CpuArchitecture '' @ a @ '' is not supported '')))"
  by (simp add: finish_Some ostest_manifest_def)

lemma Load_serving:
  "FetchByName (serving b) infraEnvFilename = Inr \<lparr>Filename = infraEnvFilename, Data = b\<rparr>"
  by (simp add: FetchByName_def serving_def)

lemma decode_document_with_arch:
  "yaml_UnmarshalStrict (Document (document_with_arch a)) =
     Inr \<lparr>ObjectMeta = zero_ObjectMeta, Spec = zero_InfraEnvSpec\<lparr>CpuArchitecture := a\<rparr>\<rparr>"
  by (simp add: yaml_UnmarshalStrict_def document_with_arch_def dec_InfraEnv_def
        dec_InfraEnvSpec_def InfraEnvSpec_fields_def zero_InfraEnvSpec_def)

lemma has_unknown_field_example: "has_unknown_field document_with_extra_field"
  by (simp add: has_unknown_field_def document_with_extra_field_def InfraEnvSpec_fields_def)

section \<open>The claims\<close>

text \<open>
  Claim C1, as amended. When the install configuration has no configuration object,
  \<open>Generate\<close> skips the build, leaves the asset as it was and returns what \<open>finish\<close>
  says of it. On an asset that has no manifest yet that is the error "missing
  configuration or manifest file", not nil; the asset still has no file, so \<open>Files\<close> is
  the empty list.
\<close>

theorem Generate_without_install_config:
  assumes "oic_Config (p_installConfig dependencies) = None"
  shows "Generate h dependencies i = Returned (finish i, i)
       \<and> Generate h dependencies Uninitialized =
           Returned (Some (errors_New ''missing configuration or manifest file''), Uninitialized)
       \<and> Files Uninitialized = []"
  using assms
  by (simp add: Generate_skip finish_def Uninitialized_def Files_def)

text \<open>The theorem at the parents without an install configuration.\<close>

theorem Generate_without_install_config_witness:
  "oic_Config (p_installConfig (parents_of None)) = None
   \<and> Generate cluster_helpers (parents_of None)
        \<lparr>File = None, Config = Some (ostest_manifest [] ''x86_64'')\<rparr> =
       Returned (None, \<lparr>File = None, Config = Some (ostest_manifest [] ''x86_64'')\<rparr>)
   \<and> Generate cluster_helpers (parents_of None) Uninitialized =
       Returned (Some (errors_New ''missing configuration or manifest file''), Uninitialized)
   \<and> Files Uninitialized = []"
  using Generate_without_install_config
    [of "parents_of None" cluster_helpers "\<lparr>File = None, Config = Some (ostest_manifest [] ''x86_64'')\<rparr>"]
  by (simp add: parents_of_def finish_ostest)

text \<open>
  Against C1 as stated: on a fresh asset and parents without an install configuration,
  \<open>Generate\<close> returns an error, where the claim says nil.
\<close>

theorem Generate_without_install_config_returns_error:
  "Generate cluster_helpers (parents_of None) Uninitialized =
     Returned (Some (errors_New ''missing configuration or manifest file''), Uninitialized)"
  by (simp add: Generate_def parents_of_def finish_def Uninitialized_def)

text \<open>
  Claim C2, as amended. For an install configuration whose SSH key is two spaces, a pipe,
  \<open>ssh-rsa AAA...\<close>, two spaces and a line feed, and whose control-plane architecture is
  \<open>arm64\<close>, \<open>Generate\<close> succeeds with a manifest whose SSHAuthorizedKey is the key
  without the trailing line feed only (the cutset has no space, so the leading spaces stay
  and shield the pipe, and the trailing spaces stay), and whose CpuArchitecture is
  \<open>aarch64\<close>. Strict decoding of the file's content gives the same two values.
\<close>

theorem Generate_scenario:
  assumes "oic_Config (p_installConfig dependencies) = Some ic"
    and "SSHKey ic = scenario_key"
    and "ControlPlane ic = Some cp"
    and "Architecture cp = ''arm64''"
  shows "\<exists>m m'. Generate h dependencies i =
             Returned (None, \<lparr>File = Some (file_of m), Config = Some m\<rparr>)
         \<and> SSHAuthorizedKey (Spec m) = ''  |ssh-rsa AAA...  ''
         \<and> CpuArchitecture (Spec m) = ''aarch64''
         \<and> yaml_Marshal m = Inr (Data (file_of m))
         \<and> yaml_UnmarshalStrict (Data (file_of m)) = Inr m'
         \<and> SSHAuthorizedKey (Spec m') = ''  |ssh-rsa AAA...  ''
         \<and> CpuArchitecture (Spec m') = ''aarch64''"
proof -
  from Generate_build [OF assms(1) assms(3), of h i] obtain m where
    gen: "Generate h dependencies i =
            Returned (finish \<lparr>File = Some (file_of m), Config = Some m\<rparr>,
                      \<lparr>File = Some (file_of m), Config = Some m\<rparr>)" and
    key: "SSHAuthorizedKey (Spec m) = strings_Trim (SSHKey ic) ssh_cutset" and
    cpu: "CpuArchitecture (Spec m) = RpmArch (Architecture cp)"
    by blast
  from key assms(2) have key': "SSHAuthorizedKey (Spec m) = ''  |ssh-rsa AAA...  ''"
    by (simp add: scenario_key_trimmed)
  from cpu assms(4) have cpu': "CpuArchitecture (Spec m) = ''aarch64''"
    by (simp add: RpmArch_def)
  from cpu' have "finish \<lparr>File = Some (file_of m), Config = Some m\<rparr> = None"
    by (simp add: finish_Some)
  with gen have "Generate h dependencies i =
      Returned (None, \<lparr>File = Some (file_of m), Config = Some m\<rparr>)"
    by simp
  moreover have "yaml_Marshal m = Inr (Data (file_of m))"
    by (simp add: yaml_Marshal_def file_of_def)
  moreover have "yaml_UnmarshalStrict (Data (file_of m)) = Inr m"
    by (simp add: file_of_def UnmarshalStrict_Marshal)
  ultimately show ?thesis
    using key' cpu' by blast
qed

text \<open>The theorem at the scenario's install configuration for the cluster \<open>ostest\<close>.\<close>

theorem Generate_scenario_witness:
  "oic_Config (p_installConfig
      (parents_of (Some (install_config scenario_key (Some \<lparr>Architecture = ''arm64''\<rparr>))))) =
     Some (install_config scenario_key (Some \<lparr>Architecture = ''arm64''\<rparr>))
   \<and> SSHKey (install_config scenario_key (Some \<lparr>Architecture = ''arm64''\<rparr>)) = scenario_key
   \<and> ControlPlane (install_config scenario_key (Some \<lparr>Architecture = ''arm64''\<rparr>)) =
       Some \<lparr>Architecture = ''arm64''\<rparr>
   \<and> (\<exists>m m'. Generate cluster_helpers
         (parents_of (Some (install_config scenario_key (Some \<lparr>Architecture = ''arm64''\<rparr>))))
         Uninitialized = Returned (None, \<lparr>File = Some (file_of m), Config = Some m\<rparr>)
         \<and> SSHAuthorizedKey (Spec m) = ''  |ssh-rsa AAA...  ''
         \<and> CpuArchitecture (Spec m) = ''aarch64''
         \<and> yaml_Marshal m = Inr (Data (file_of m))
         \<and> yaml_UnmarshalStrict (Data (file_of m)) = Inr m'
         \<and> SSHAuthorizedKey (Spec m') = ''  |ssh-rsa AAA...  ''
         \<and> CpuArchitecture (Spec m') = ''aarch64'')"
proof -
  let ?ic = "install_config scenario_key (Some \<lparr>Architecture = ''arm64''\<rparr>)"
  have 1: "oic_Config (p_installConfig (parents_of (Some ?ic))) = Some ?ic"
    by (simp add: parents_of_def)
  have 2: "SSHKey ?ic = scenario_key"
    by (simp add: install_config_def)
  have 3: "ControlPlane ?ic = Some \<lparr>Architecture = ''arm64''\<rparr>"
    by (simp add: install_config_def)
  have 4: "Architecture \<lparr>Architecture = ''arm64''\<rparr> = ''arm64''"
    by simp
  from Generate_scenario [OF 1 2 3 4, of cluster_helpers Uninitialized] 1 2 3
  show ?thesis by simp
qed

text \<open>
  Against C2 as stated: the manifest generated in the scenario holds the key with its
  spaces and pipe, which is not \<open>ssh-rsa AAA...\<close>.
\<close>

theorem Generate_scenario_keeps_spaces_and_pipe:
  "Generate cluster_helpers
     (parents_of (Some (install_config scenario_key (Some \<lparr>Architecture = ''arm64''\<rparr>))))
     Uninitialized =
   Returned (None,
     \<lparr>File = Some (file_of (ostest_manifest ''  |ssh-rsa AAA...  '' ''aarch64'')),
      Config = Some (ostest_manifest ''  |ssh-rsa AAA...  '' ''aarch64'')\<rparr>)
   \<and> SSHAuthorizedKey (Spec (ostest_manifest ''  |ssh-rsa AAA...  '' ''aarch64''))
       \<noteq> ''ssh-rsa AAA...''"
proof
  show "Generate cluster_helpers
     (parents_of (Some (install_config scenario_key (Some \<lparr>Architecture = ''arm64''\<rparr>))))
     Uninitialized =
   Returned (None,
     \<lparr>File = Some (file_of (ostest_manifest ''  |ssh-rsa AAA...  '' ''aarch64'')),
      Config = Some (ostest_manifest ''  |ssh-rsa AAA...  '' ''aarch64'')\<rparr>)"
    by (simp add: Generate_ostest scenario_key_trimmed finish_ostest RpmArch_def)
  show "SSHAuthorizedKey (Spec (ostest_manifest ''  |ssh-rsa AAA...  '' ''aarch64''))
       \<noteq> ''ssh-rsa AAA...''"
    by (simp add: ostest_manifest_def)
qed

text \<open>
  Claim C3, as amended. When the manifest's CpuArchitecture is outside the supported set,
  \<open>Generate\<close> and \<open>Load\<close> both return the unsupported-architecture error. The asset
  keeps the file all the same: both paths assign \<open>File\<close> before \<open>finish\<close> runs, so
  \<open>Files\<close> returns that one file and not the empty list.
\<close>

theorem unsupported_architecture_keeps_file:
  "(oic_Config (p_installConfig dependencies) = Some ic \<and> ControlPlane ic = Some cp
      \<and> RpmArch (Architecture cp) \<notin> {[], ''x86_64'', ''aarch64'', ''ppc64le''}
    \<longrightarrow> (\<exists>m. Generate h dependencies i =
               Returned (Some (errors_New (''Config.Spec.CpuArchitecture ''
                                 @ RpmArch (Architecture cp) @ '' is not supported '')),
                         \<lparr>File = Some (file_of m), Config = Some m\<rparr>)
             \<and> CpuArchitecture (Spec m) = RpmArch (Architecture cp)
             \<and> Files \<lparr>File = Some (file_of m), Config = Some m\<rparr> = [file_of m]))
   \<and> (FetchByName f infraEnvFilename = Inr file \<and> yaml_UnmarshalStrict (Data file) = Inr c
      \<and> RpmArch (CpuArchitecture (Spec c)) \<notin> {[], ''x86_64'', ''aarch64'', ''ppc64le''}
    \<longrightarrow> (\<exists>j'. Load f j =
               ((False, Some (errors_New (''Config.Spec.CpuArchitecture ''
                                 @ RpmArch (CpuArchitecture (Spec c)) @ '' is not supported ''))),
                j')
             \<and> Files j' = [file]))"
proof (intro conjI impI)
  assume a: "oic_Config (p_installConfig dependencies) = Some ic \<and> ControlPlane ic = Some cp
      \<and> RpmArch (Architecture cp) \<notin> {[], ''x86_64'', ''aarch64'', ''ppc64le''}"
  then have ic: "oic_Config (p_installConfig dependencies) = Some ic"
    and cp: "ControlPlane ic = Some cp" by simp_all
  from Generate_build [OF ic cp, of h i] obtain m where
    gen: "Generate h dependencies i =
            Returned (finish \<lparr>File = Some (file_of m), Config = Some m\<rparr>,
                      \<lparr>File = Some (file_of m), Config = Some m\<rparr>)" and
    cpu: "CpuArchitecture (Spec m) = RpmArch (Architecture cp)"
    by blast
  from a cpu have "finish \<lparr>File = Some (file_of m), Config = Some m\<rparr> =
      Some (errors_New (''Config.Spec.CpuArchitecture '' @ RpmArch (Architecture cp)
              @ '' is not supported ''))"
    by (simp add: finish_Some)
  with gen cpu show "\<exists>m. Generate h dependencies i =
               Returned (Some (errors_New (''Config.Spec.CpuArchitecture ''
                                 @ RpmArch (Architecture cp) @ '' is not supported '')),
                         \<lparr>File = Some (file_of m), Config = Some m\<rparr>)
             \<and> CpuArchitecture (Spec m) = RpmArch (Architecture cp)
             \<and> Files \<lparr>File = Some (file_of m), Config = Some m\<rparr> = [file_of m]"
    by (auto simp add: Files_def)
next
  assume a: "FetchByName f infraEnvFilename = Inr file \<and> yaml_UnmarshalStrict (Data file) = Inr c
      \<and> RpmArch (CpuArchitecture (Spec c)) \<notin> {[], ''x86_64'', ''aarch64'', ''ppc64le''}"
  then have fetch: "FetchByName f infraEnvFilename = Inr file"
    and dec: "yaml_UnmarshalStrict (Data file) = Inr c" by simp_all
  from a show "\<exists>j'. Load f j =
               ((False, Some (errors_New (''Config.Spec.CpuArchitecture ''
                                 @ RpmArch (CpuArchitecture (Spec c)) @ '' is not supported ''))),
                j')
             \<and> Files j' = [file]"
    by (simp add: Load_decoded [OF fetch dec] finish_Some Files_def)
qed

text \<open>The theorem at the architecture \<open>unsupported-value\<close>, on both paths.\<close>

theorem unsupported_architecture_keeps_file_witness:
  "oic_Config (p_installConfig (parents_of (Some (install_config scenario_key
       (Some \<lparr>Architecture = ''unsupported-value''\<rparr>))))) =
     Some (install_config scenario_key (Some \<lparr>Architecture = ''unsupported-value''\<rparr>))
   \<and> ControlPlane (install_config scenario_key (Some \<lparr>Architecture = ''unsupported-value''\<rparr>)) =
       Some \<lparr>Architecture = ''unsupported-value''\<rparr>
   \<and> RpmArch (Architecture \<lparr>Architecture = ''unsupported-value''\<rparr>)
       \<notin> {[], ''x86_64'', ''aarch64'', ''ppc64le''}
   \<and> (\<exists>m. Generate cluster_helpers (parents_of (Some (install_config scenario_key
               (Some \<lparr>Architecture = ''unsupported-value''\<rparr>)))) Uninitialized =
             Returned (Some (errors_New
                         ''Config.Spec.CpuArchitecture unsupported-value is not supported ''),
                       \<lparr>File = Some (file_of m), Config = Some m\<rparr>)
           \<and> CpuArchitecture (Spec m) = ''unsupported-value''
           \<and> Files \<lparr>File = Some (file_of m), Config = Some m\<rparr> = [file_of m])
   \<and> FetchByName (serving (Document (document_with_arch ''unsupported-value''))) infraEnvFilename =
       Inr \<lparr>Filename = infraEnvFilename,
            Data = Document (document_with_arch ''unsupported-value'')\<rparr>
   \<and> yaml_UnmarshalStrict (Document (document_with_arch ''unsupported-value'')) =
       Inr \<lparr>ObjectMeta = zero_ObjectMeta,
            Spec = zero_InfraEnvSpec\<lparr>CpuArchitecture := ''unsupported-value''\<rparr>\<rparr>
   \<and> (\<exists>j'. Load (serving (Document (document_with_arch ''unsupported-value''))) Uninitialized =
             ((False, Some (errors_New
                         ''Config.Spec.CpuArchitecture unsupported-value is not supported '')),
              j')
           \<and> Files j' = [\<lparr>Filename = infraEnvFilename,
                            Data = Document (document_with_arch ''unsupported-value'')\<rparr>])"
proof -
  let ?cp = "\<lparr>Architecture = ''unsupported-value''\<rparr>"
  let ?ic = "install_config scenario_key (Some ?cp)"
  let ?file = "\<lparr>Filename = infraEnvFilename,
                Data = Document (document_with_arch ''unsupported-value'')\<rparr>"
  let ?c = "\<lparr>ObjectMeta = zero_ObjectMeta,
             Spec = zero_InfraEnvSpec\<lparr>CpuArchitecture := ''unsupported-value''\<rparr>\<rparr>"
  have g1: "oic_Config (p_installConfig (parents_of (Some ?ic))) = Some ?ic"
    by (simp add: parents_of_def)
  have g2: "ControlPlane ?ic = Some ?cp"
    by (simp add: install_config_def)
  have g3: "RpmArch (Architecture ?cp) \<notin> {[], ''x86_64'', ''aarch64'', ''ppc64le''}"
    by (simp add: RpmArch_def)
  have r: "RpmArch ''unsupported-value'' = ''unsupported-value''"
    by (simp add: RpmArch_def)
  have l1: "FetchByName (serving (Document (document_with_arch ''unsupported-value'')))
              infraEnvFilename = Inr ?file"
    by (rule Load_serving)
  have l2: "yaml_UnmarshalStrict (Data ?file) = Inr ?c"
    by (simp add: decode_document_with_arch)
  have l3: "RpmArch (CpuArchitecture (Spec ?c)) \<notin> {[], ''x86_64'', ''aarch64'', ''ppc64le''}"
    by (simp add: RpmArch_def)
  note inst = unsupported_architecture_keeps_file
    [of "parents_of (Some ?ic)" ?ic ?cp cluster_helpers Uninitialized
       "serving (Document (document_with_arch ''unsupported-value''))" ?file ?c Uninitialized]
  from inst g1 g2 g3 have G: "\<exists>m. Generate cluster_helpers (parents_of (Some ?ic)) Uninitialized =
             Returned (Some (errors_New
                         ''Config.Spec.CpuArchitecture unsupported-value is not supported ''),
                       \<lparr>File = Some (file_of m), Config = Some m\<rparr>)
           \<and> CpuArchitecture (Spec m) = ''unsupported-value''
           \<and> Files \<lparr>File = Some (file_of m), Config = Some m\<rparr> = [file_of m]"
    by (simp add: r)
  from inst l1 l2 l3 have L: "\<exists>j'. Load (serving (Document (document_with_arch ''unsupported-value'')))
             Uninitialized =
             ((False, Some (errors_New
                         ''Config.Spec.CpuArchitecture unsupported-value is not supported '')),
              j')
           \<and> Files j' = [?file]"
    by (simp add: r)
  have l2': "yaml_UnmarshalStrict (Document (document_with_arch ''unsupported-value'')) = Inr ?c"
    by (rule decode_document_with_arch)
  from g1 g2 g3 G l1 l2' L show ?thesis
    by (intro conjI)
qed

text \<open>
  Against C3 as stated: with the architecture \<open>unsupported-value\<close> both paths return the
  error and leave an asset whose \<open>Files\<close> is not empty.
\<close>

theorem unsupported_architecture_files_not_empty:
  "Generate cluster_helpers
     (parents_of (Some (install_config scenario_key (Some \<lparr>Architecture = ''unsupported-value''\<rparr>))))
     Uninitialized =
   Returned (Some (errors_New ''Config.Spec.CpuArchitecture unsupported-value is not supported ''),
     \<lparr>File = Some (file_of (ostest_manifest ''  |ssh-rsa AAA...  '' ''unsupported-value'')),
      Config = Some (ostest_manifest ''  |ssh-rsa AAA...  '' ''unsupported-value'')\<rparr>)
   \<and> Files \<lparr>File = Some (file_of (ostest_manifest ''  |ssh-rsa AAA...  '' ''unsupported-value'')),
             Config = Some (ostest_manifest ''  |ssh-rsa AAA...  '' ''unsupported-value'')\<rparr> \<noteq> []
   \<and> Load (serving (Document (document_with_arch ''unsupported-value''))) Uninitialized =
       ((False, Some (errors_New
                  ''Config.Spec.CpuArchitecture unsupported-value is not supported '')),
        \<lparr>File = Some \<lparr>Filename = infraEnvFilename,
                       Data = Document (document_with_arch ''unsupported-value'')\<rparr>,
         Config = Some \<lparr>ObjectMeta = zero_ObjectMeta,
                        Spec = zero_InfraEnvSpec\<lparr>CpuArchitecture := ''unsupported-value''\<rparr>\<rparr>\<rparr>)
   \<and> Files \<lparr>File = Some \<lparr>Filename = infraEnvFilename,
                           Data = Document (document_with_arch ''unsupported-value'')\<rparr>,
             Config = Some \<lparr>ObjectMeta = zero_ObjectMeta,
                        Spec = zero_InfraEnvSpec\<lparr>CpuArchitecture := ''unsupported-value''\<rparr>\<rparr>\<rparr>
       \<noteq> []"
proof (intro conjI)
  show "Generate cluster_helpers
     (parents_of (Some (install_config scenario_key (Some \<lparr>Architecture = ''unsupported-value''\<rparr>))))
     Uninitialized =
   Returned (Some (errors_New ''Config.Spec.CpuArchitecture unsupported-value is not supported ''),
     \<lparr>File = Some (file_of (ostest_manifest ''  |ssh-rsa AAA...  '' ''unsupported-value'')),
      Config = Some (ostest_manifest ''  |ssh-rsa AAA...  '' ''unsupported-value'')\<rparr>)"
    by (simp add: Generate_ostest scenario_key_trimmed finish_ostest RpmArch_def)
  show "Load (serving (Document (document_with_arch ''unsupported-value''))) Uninitialized =
       ((False, Some (errors_New
                  ''Config.Spec.CpuArchitecture unsupported-value is not supported '')),
        \<lparr>File = Some \<lparr>Filename = infraEnvFilename,
                       Data = Document (document_with_arch ''unsupported-value'')\<rparr>,
         Config = Some \<lparr>ObjectMeta = zero_ObjectMeta,
                        Spec = zero_InfraEnvSpec\<lparr>CpuArchitecture := ''unsupported-value''\<rparr>\<rparr>\<rparr>)"
    by (simp add: Load_decoded [OF Load_serving] decode_document_with_arch finish_Some
          RpmArch_def)
qed (simp_all add: Files_def)

text \<open>
  Claim C4. When the fetcher reports a does-not-exist error for the asset's file name,
  \<open>Load\<close> returns (false, nil) and leaves the asset as it was; on a fresh asset \<open>File\<close>
  and \<open>Config\<close> stay unset.
\<close>

theorem Load_not_found:
  assumes "FetchByName f infraEnvFilename = Inl err" and "os_IsNotExist err"
  shows "Load f i = ((False, None), i)
       \<and> File (snd (Load f Uninitialized)) = None
       \<and> Config (snd (Load f Uninitialized)) = None"
  using assms by (simp add: Load_def Uninitialized_def)

text \<open>The theorem at the fetcher that has no file.\<close>

theorem Load_not_found_witness:
  "FetchByName no_file infraEnvFilename = Inl fetch_NotExist
   \<and> os_IsNotExist fetch_NotExist
   \<and> Load no_file (\<lparr>File = None, Config = Some (ostest_manifest [] [])\<rparr>) =
       ((False, None), \<lparr>File = None, Config = Some (ostest_manifest [] [])\<rparr>)
   \<and> File (snd (Load no_file Uninitialized)) = None
   \<and> Config (snd (Load no_file Uninitialized)) = None"
proof -
  have 1: "FetchByName no_file infraEnvFilename = Inl fetch_NotExist"
    by (simp add: FetchByName_def no_file_def)
  have 2: "os_IsNotExist fetch_NotExist"
    by simp
  from Load_not_found [OF 1 2, of "\<lparr>File = None, Config = Some (ostest_manifest [] [])\<rparr>"] 1 2
  show ?thesis by simp
qed

text \<open>
  Claim C5. When the fetched document has a field outside the manifest's schema, \<open>Load\<close>
  returns false with the wrapped decode error and leaves the asset as it was: the fields
  are assigned only after decoding, so on a fresh asset \<open>File\<close> and \<open>Config\<close> stay
  unset.
\<close>

theorem Load_unknown_field:
  assumes "FetchByName f infraEnvFilename = Inr file"
    and "Data file = Document d"
    and "has_unknown_field d"
  shows "Load f i =
           ((False, Some (errors_Wrap (yaml_error ''error unmarshaling JSON'')
                            (''failed to unmarshal '' @ infraEnvFilename))), i)
       \<and> File (snd (Load f Uninitialized)) = None
       \<and> Config (snd (Load f Uninitialized)) = None"
  using assms UnmarshalStrict_unknown_field [of d]
  by (simp add: Load_def Uninitialized_def)

text \<open>The theorem at a document whose spec has the extra field \<open>bogus\<close>.\<close>

theorem Load_unknown_field_witness:
  "FetchByName (serving (Document document_with_extra_field)) infraEnvFilename =
     Inr \<lparr>Filename = infraEnvFilename, Data = Document document_with_extra_field\<rparr>
   \<and> has_unknown_field document_with_extra_field
   \<and> Load (serving (Document document_with_extra_field)) Uninitialized =
           ((False, Some (errors_Wrap (yaml_error ''error unmarshaling JSON'')
                            (''failed to unmarshal '' @ infraEnvFilename))), Uninitialized)
   \<and> File (snd (Load (serving (Document document_with_extra_field)) Uninitialized)) = None
   \<and> Config (snd (Load (serving (Document document_with_extra_field)) Uninitialized)) = None"
proof -
  let ?file = "\<lparr>Filename = infraEnvFilename, Data = Document document_with_extra_field\<rparr>"
  have 1: "FetchByName (serving (Document document_with_extra_field)) infraEnvFilename = Inr ?file"
    by (rule Load_serving)
  have 2: "Data ?file = Document document_with_extra_field"
    by simp
  from Load_unknown_field [OF 1 2 has_unknown_field_example, of Uninitialized]
    1 has_unknown_field_example
  show ?thesis by (simp add: Uninitialized_def)
qed

text \<open>
  Claim C6. Whenever \<open>Generate\<close> returns a nil error, or \<open>Load\<close> returns (true, nil),
  the asset holds a manifest whose CpuArchitecture is empty or one of \<open>x86_64\<close>,
  \<open>aarch64\<close>, \<open>ppc64le\<close>; these three are the RPM names of amd64, arm64 and ppc64le;
  and \<open>finish\<close> fails on every other architecture value.
\<close>

theorem returned_architecture_supported:
  "(Generate h dependencies i = Returned (None, i')
      \<longrightarrow> (\<exists>m. Config i' = Some m
             \<and> CpuArchitecture (Spec m) \<in> {[], ''x86_64'', ''aarch64'', ''ppc64le''}))
   \<and> (Load f j = ((True, None), j')
      \<longrightarrow> (\<exists>m. Config j' = Some m
             \<and> CpuArchitecture (Spec m) \<in> {[], ''x86_64'', ''aarch64'', ''ppc64le''}))
   \<and> (Config k = Some c \<and> CpuArchitecture (Spec c) \<notin> {[], ''x86_64'', ''aarch64'', ''ppc64le''}
      \<longrightarrow> finish k = Some (errors_New (''Config.Spec.CpuArchitecture ''
                             @ CpuArchitecture (Spec c) @ '' is not supported '')))
   \<and> [RpmArch ArchitectureAMD64, RpmArch ArchitectureARM64, RpmArch ArchitecturePPC64LE] =
       [''x86_64'', ''aarch64'', ''ppc64le'']"
proof (intro conjI impI)
  assume gen: "Generate h dependencies i = Returned (None, i')"
  show "\<exists>m. Config i' = Some m
          \<and> CpuArchitecture (Spec m) \<in> {[], ''x86_64'', ''aarch64'', ''ppc64le''}"
  proof (cases "oic_Config (p_installConfig dependencies)")
    case None
    with gen have "finish i' = None"
      by (auto simp add: Generate_skip)
    then show ?thesis by (simp add: finish_None_iff)
  next
    case (Some ic)
    show ?thesis
    proof (cases "ControlPlane ic")
      case None
      with Some gen show ?thesis
        by (simp add: Generate_panic)
    next
      case (Some cp)
      from Generate_build [OF \<open>oic_Config (p_installConfig dependencies) = Some ic\<close> Some, of h i]
        gen
      have "finish i' = None" by auto
      then show ?thesis by (simp add: finish_None_iff)
    qed
  qed
next
  assume load: "Load f j = ((True, None), j')"
  show "\<exists>m. Config j' = Some m
          \<and> CpuArchitecture (Spec m) \<in> {[], ''x86_64'', ''aarch64'', ''ppc64le''}"
  proof (cases "FetchByName f infraEnvFilename")
    case (Inl err)
    with load show ?thesis
      by (simp add: Load_def split: if_splits)
  next
    case (Inr fetched)
    show ?thesis
    proof (cases "yaml_UnmarshalStrict (Data fetched)")
      case (Inl err)
      with Inr load show ?thesis
        by (simp add: Load_def)
    next
      case inr: (Inr c)
      from load have "finish j' = None"
        by (simp add: Load_decoded [OF Inr inr] Let_def split: option.splits)
      then show ?thesis by (simp add: finish_None_iff)
    qed
  qed
next
  assume "Config k = Some c
    \<and> CpuArchitecture (Spec c) \<notin> {[], ''x86_64'', ''aarch64'', ''ppc64le''}"
  then show "finish k = Some (errors_New (''Config.Spec.CpuArchitecture ''
                             @ CpuArchitecture (Spec c) @ '' is not supported ''))"
    by (cases k) (simp add: finish_Some)
next
  show "[RpmArch ArchitectureAMD64, RpmArch ArchitectureARM64, RpmArch ArchitecturePPC64LE] =
       [''x86_64'', ''aarch64'', ''ppc64le'']"
    by (simp add: RpmArch_supported)
qed

text \<open>
  The theorem at a successful \<open>Generate\<close>, a successful \<open>Load\<close> and a manifest with
  the architecture \<open>s390x\<close>.
\<close>

theorem returned_architecture_supported_witness:
  "Generate cluster_helpers
      (parents_of (Some (install_config scenario_key (Some \<lparr>Architecture = ''arm64''\<rparr>))))
      Uninitialized =
     Returned (None,
       \<lparr>File = Some (file_of (ostest_manifest ''  |ssh-rsa AAA...  '' ''aarch64'')),
        Config = Some (ostest_manifest ''  |ssh-rsa AAA...  '' ''aarch64'')\<rparr>)
   \<and> (\<exists>m. Config \<lparr>File = Some (file_of (ostest_manifest ''  |ssh-rsa AAA...  '' ''aarch64'')),
                    Config = Some (ostest_manifest ''  |ssh-rsa AAA...  '' ''aarch64'')\<rparr> = Some m
          \<and> CpuArchitecture (Spec m) \<in> {[], ''x86_64'', ''aarch64'', ''ppc64le''})
   \<and> Load (serving (Document (document_with_arch ''amd64''))) Uninitialized =
       ((True, None),
        \<lparr>File = Some \<lparr>Filename = infraEnvFilename, Data = Document (document_with_arch ''amd64'')\<rparr>,
         Config = Some \<lparr>ObjectMeta = zero_ObjectMeta,
                        Spec = zero_InfraEnvSpec\<lparr>CpuArchitecture := ''x86_64''\<rparr>\<rparr>\<rparr>)
   \<and> (\<exists>m. Config
            \<lparr>File = Some \<lparr>Filename = infraEnvFilename,
                           Data = Document (document_with_arch ''amd64'')\<rparr>,
             Config = Some \<lparr>ObjectMeta = zero_ObjectMeta,
                            Spec = zero_InfraEnvSpec\<lparr>CpuArchitecture := ''x86_64''\<rparr>\<rparr>\<rparr> = Some m
          \<and> CpuArchitecture (Spec m) \<in> {[], ''x86_64'', ''aarch64'', ''ppc64le''})
   \<and> Config \<lparr>File = None, Config = Some (ostest_manifest [] ''s390x'')\<rparr> =
       Some (ostest_manifest [] ''s390x'')
   \<and> CpuArchitecture (Spec (ostest_manifest [] ''s390x''))
       \<notin> {[], ''x86_64'', ''aarch64'', ''ppc64le''}
   \<and> finish \<lparr>File = None, Config = Some (ostest_manifest [] ''s390x'')\<rparr> =
       Some (errors_New ''Config.Spec.CpuArchitecture s390x is not supported '')"
proof -
  let ?i' = "\<lparr>File = Some (file_of (ostest_manifest ''  |ssh-rsa AAA...  '' ''aarch64'')),
              Config = Some (ostest_manifest ''  |ssh-rsa AAA...  '' ''aarch64'')\<rparr>"
  let ?j' = "\<lparr>File = Some \<lparr>Filename = infraEnvFilename,
                             Data = Document (document_with_arch ''amd64'')\<rparr>,
              Config = Some \<lparr>ObjectMeta = zero_ObjectMeta,
                             Spec = zero_InfraEnvSpec\<lparr>CpuArchitecture := ''x86_64''\<rparr>\<rparr>\<rparr>"
  let ?k = "\<lparr>File = None, Config = Some (ostest_manifest [] ''s390x'')\<rparr>"
  have g: "Generate cluster_helpers
      (parents_of (Some (install_config scenario_key (Some \<lparr>Architecture = ''arm64''\<rparr>))))
      Uninitialized = Returned (None, ?i')"
    by (simp add: Generate_ostest scenario_key_trimmed finish_ostest RpmArch_def)
  have l: "Load (serving (Document (document_with_arch ''amd64''))) Uninitialized =
      ((True, None), ?j')"
    by (simp add: Load_decoded [OF Load_serving] decode_document_with_arch finish_Some
          RpmArch_def)
  have k1: "Config ?k = Some (ostest_manifest [] ''s390x'')"
    by simp
  have k2: "CpuArchitecture (Spec (ostest_manifest [] ''s390x''))
      \<notin> {[], ''x86_64'', ''aarch64'', ''ppc64le''}"
    by (simp add: ostest_manifest_def)
  have k3: "CpuArchitecture (Spec (ostest_manifest [] ''s390x'')) = ''s390x''"
    by (simp add: ostest_manifest_def)
  note inst = returned_architecture_supported
    [of cluster_helpers
        "parents_of (Some (install_config scenario_key (Some \<lparr>Architecture = ''arm64''\<rparr>)))"
        Uninitialized ?i' "serving (Document (document_with_arch ''amd64''))" Uninitialized ?j'
        ?k "ostest_manifest [] ''s390x''"]
  from inst g have G: "\<exists>m. Config ?i' = Some m
      \<and> CpuArchitecture (Spec m) \<in> {[], ''x86_64'', ''aarch64'', ''ppc64le''}"
    by blast
  from inst l have L: "\<exists>m. Config ?j' = Some m
      \<and> CpuArchitecture (Spec m) \<in> {[], ''x86_64'', ''aarch64'', ''ppc64le''}"
    by blast
  from inst k1 k2 have K: "finish ?k =
      Some (errors_New (''Config.Spec.CpuArchitecture ''
              @ CpuArchitecture (Spec (ostest_manifest [] ''s390x'')) @ '' is not supported ''))"
    by blast
  then have K': "finish ?k = Some (errors_New ''Config.Spec.CpuArchitecture s390x is not supported '')"
    by (simp add: k3)
  from g G l L k1 k2 K' show ?thesis
    by (intro conjI)
qed

text \<open>
  Claim C8. After a successful \<open>Generate\<close> that built a manifest, the file holds the
  serialized manifest, strict decoding of it gives the manifest back in all fields, the
  manifest's architecture is a fixed point of the normalizer, and so \<open>Load\<close> from any
  fetcher that serves this file succeeds with exactly the same file and manifest.
\<close>

theorem Generate_then_Load_roundtrip:
  assumes "Generate h dependencies i = Returned (None, i')"
    and "oic_Config (p_installConfig dependencies) \<noteq> None"
  shows "\<exists>m fetched. Config i' = Some m \<and> File i' = Some fetched
         \<and> yaml_Marshal m = Inr (Data fetched)
         \<and> yaml_UnmarshalStrict (Data fetched) = Inr m
         \<and> RpmArch (CpuArchitecture (Spec m)) = CpuArchitecture (Spec m)
         \<and> (\<forall>f j. FetchByName f infraEnvFilename = Inr fetched
              \<longrightarrow> Load f j = ((True, None), \<lparr>File = Some fetched, Config = Some m\<rparr>))"
proof -
  from assms(2) obtain ic where ic: "oic_Config (p_installConfig dependencies) = Some ic"
    by blast
  from assms(1) ic obtain cp where cp: "ControlPlane ic = Some cp"
    by (cases "ControlPlane ic") (simp_all add: Generate_panic)
  from Generate_build [OF ic cp, of h i] assms(1) obtain m where
    i': "i' = \<lparr>File = Some (file_of m), Config = Some m\<rparr>" and
    ok: "finish \<lparr>File = Some (file_of m), Config = Some m\<rparr> = None"
    by auto
  from ok have sup: "CpuArchitecture (Spec m) \<in> {[], ''x86_64'', ''aarch64'', ''ppc64le''}"
    by (simp add: finish_None_iff)
  then have fixed: "RpmArch (CpuArchitecture (Spec m)) = CpuArchitecture (Spec m)"
    by (auto simp add: RpmArch_def)
  have dec: "yaml_UnmarshalStrict (Data (file_of m)) = Inr m"
    by (simp add: file_of_def UnmarshalStrict_Marshal)
  have enc: "yaml_Marshal m = Inr (Data (file_of m))"
    by (simp add: yaml_Marshal_def file_of_def)
  have same: "m\<lparr>Spec := (Spec m)\<lparr>CpuArchitecture := RpmArch (CpuArchitecture (Spec m))\<rparr>\<rparr> = m"
    by (simp add: fixed)
  have load: "Load f j = ((True, None), \<lparr>File = Some (file_of m), Config = Some m\<rparr>)"
    if "FetchByName f infraEnvFilename = Inr (file_of m)" for f j
    by (simp add: Load_decoded [OF that dec] same ok)
  from i' enc dec fixed load show ?thesis
    by auto
qed

text \<open>The theorem at the scenario's install configuration, read back from a serving fetcher.\<close>

theorem Generate_then_Load_roundtrip_witness:
  "Generate cluster_helpers
      (parents_of (Some (install_config scenario_key (Some \<lparr>Architecture = ''arm64''\<rparr>))))
      Uninitialized =
     Returned (None,
       \<lparr>File = Some (file_of (ostest_manifest ''  |ssh-rsa AAA...  '' ''aarch64'')),
        Config = Some (ostest_manifest ''  |ssh-rsa AAA...  '' ''aarch64'')\<rparr>)
   \<and> oic_Config (p_installConfig
        (parents_of (Some (install_config scenario_key (Some \<lparr>Architecture = ''arm64''\<rparr>)))))
       \<noteq> None
   \<and> yaml_UnmarshalStrict (Data (file_of (ostest_manifest ''  |ssh-rsa AAA...  '' ''aarch64''))) =
       Inr (ostest_manifest ''  |ssh-rsa AAA...  '' ''aarch64'')
   \<and> FetchByName
        (serving (Data (file_of (ostest_manifest ''  |ssh-rsa AAA...  '' ''aarch64''))))
        infraEnvFilename =
       Inr (file_of (ostest_manifest ''  |ssh-rsa AAA...  '' ''aarch64''))
   \<and> Load (serving (Data (file_of (ostest_manifest ''  |ssh-rsa AAA...  '' ''aarch64''))))
        Uninitialized =
       ((True, None),
        \<lparr>File = Some (file_of (ostest_manifest ''  |ssh-rsa AAA...  '' ''aarch64'')),
         Config = Some (ostest_manifest ''  |ssh-rsa AAA...  '' ''aarch64'')\<rparr>)"
proof -
  let ?M = "ostest_manifest ''  |ssh-rsa AAA...  '' ''aarch64''"
  let ?P = "parents_of (Some (install_config scenario_key (Some \<lparr>Architecture = ''arm64''\<rparr>)))"
  let ?i' = "\<lparr>File = Some (file_of ?M), Config = Some ?M\<rparr>"
  have g: "Generate cluster_helpers ?P Uninitialized = Returned (None, ?i')"
    by (simp add: Generate_ostest scenario_key_trimmed finish_ostest RpmArch_def)
  have p: "oic_Config (p_installConfig ?P) \<noteq> None"
    by (simp add: parents_of_def)
  have s: "FetchByName (serving (Data (file_of ?M))) infraEnvFilename = Inr (file_of ?M)"
    by (simp add: FetchByName_def serving_def file_of_def)
  from Generate_then_Load_roundtrip [OF g p] obtain m fetched where
    m: "Config ?i' = Some m" and f: "File ?i' = Some fetched" and
    dec: "yaml_UnmarshalStrict (Data fetched) = Inr m" and
    load: "\<forall>f j. FetchByName f infraEnvFilename = Inr fetched
             \<longrightarrow> Load f j = ((True, None), \<lparr>File = Some fetched, Config = Some m\<rparr>)"
    by blast
  from m have m': "m = ?M" by simp
  from f have f': "fetched = file_of ?M" by simp
  from dec m' f' have D: "yaml_UnmarshalStrict (Data (file_of ?M)) = Inr ?M"
    by simp
  from load s m' f' have L: "Load (serving (Data (file_of ?M))) Uninitialized =
      ((True, None), \<lparr>File = Some (file_of ?M), Config = Some ?M\<rparr>)"
    by blast
  from g p D s L show ?thesis
    by (intro conjI)
qed

text \<open>
  Claim C9 says that \<open>Generate\<close> and \<open>Load\<close> always return, also for an install
  configuration with a nil control plane. At such an install configuration \<open>Generate\<close>
  does not return: it reads the architecture through the nil pointer and panics.
\<close>

theorem Generate_nil_ControlPlane_panics:
  "Generate cluster_helpers (parents_of (Some (install_config scenario_key None))) Uninitialized =
     Panic nil_dereference"
  by (simp add: Generate_def parents_of_def install_config_def)

text \<open>
  With a control plane present, or with no install configuration at all, \<open>Generate\<close>
  returns; \<open>Load\<close> has no panicking step.
\<close>

lemma Generate_returns_iff:
  "(\<exists>r. Generate h dependencies i = Returned r) \<longleftrightarrow>
     (\<forall>ic. oic_Config (p_installConfig dependencies) = Some ic \<longrightarrow> ControlPlane ic \<noteq> None)"
proof (cases "oic_Config (p_installConfig dependencies)")
  case None
  then show ?thesis by (simp add: Generate_skip)
next
  case (Some ic)
  show ?thesis
  proof (cases "ControlPlane ic")
    case None
    with Some show ?thesis by (simp add: Generate_panic)
  next
    case cp: (Some cp)
    from Generate_build [OF Some cp, of h i] Some cp show ?thesis by auto
  qed
qed

text \<open>
  Claim C10. When fetching and strict decoding succeed and \<open>finish\<close> rejects the decoded
  manifest, \<open>Load\<close> returns false with that error, which is the unsupported-architecture
  error, and the asset keeps the fetched file and the decoded, re-normalized manifest:
  nothing is rolled back.
\<close>

theorem Load_rejected_keeps_File_and_Config:
  assumes "FetchByName f infraEnvFilename = Inr fetched"
    and "yaml_UnmarshalStrict (Data fetched) = Inr c"
    and "finish \<lparr>File = Some fetched,
                 Config = Some (c\<lparr>Spec := (Spec c)
                            \<lparr>CpuArchitecture := RpmArch (CpuArchitecture (Spec c))\<rparr>\<rparr>)\<rparr> = Some err"
  shows "Load f i =
           ((False, Some err),
            \<lparr>File = Some fetched,
             Config = Some (c\<lparr>Spec := (Spec c)
                        \<lparr>CpuArchitecture := RpmArch (CpuArchitecture (Spec c))\<rparr>\<rparr>)\<rparr>)
       \<and> err = errors_New (''Config.Spec.CpuArchitecture ''
                   @ RpmArch (CpuArchitecture (Spec c)) @ '' is not supported '')
       \<and> RpmArch (CpuArchitecture (Spec c)) \<notin> {[], ''x86_64'', ''aarch64'', ''ppc64le''}"
proof (intro conjI)
  show "Load f i =
           ((False, Some err),
            \<lparr>File = Some fetched,
             Config = Some (c\<lparr>Spec := (Spec c)
                        \<lparr>CpuArchitecture := RpmArch (CpuArchitecture (Spec c))\<rparr>\<rparr>)\<rparr>)"
    by (simp add: Load_decoded [OF assms(1) assms(2)] assms(3))
  from assms(3) show "err = errors_New (''Config.Spec.CpuArchitecture ''
                   @ RpmArch (CpuArchitecture (Spec c)) @ '' is not supported '')"
    by (simp add: finish_Some split: if_splits)
  from assms(3) show "RpmArch (CpuArchitecture (Spec c)) \<notin> {[], ''x86_64'', ''aarch64'', ''ppc64le''}"
    by (simp add: finish_Some split: if_splits)
qed

text \<open>The theorem at a document with the architecture \<open>unsupported-value\<close>.\<close>

theorem Load_rejected_keeps_File_and_Config_witness:
  "FetchByName (serving (Document (document_with_arch ''unsupported-value''))) infraEnvFilename =
     Inr \<lparr>Filename = infraEnvFilename,
          Data = Document (document_with_arch ''unsupported-value'')\<rparr>
   \<and> yaml_UnmarshalStrict (Document (document_with_arch ''unsupported-value'')) =
       Inr \<lparr>ObjectMeta = zero_ObjectMeta,
            Spec = zero_InfraEnvSpec\<lparr>CpuArchitecture := ''unsupported-value''\<rparr>\<rparr>
   \<and> finish \<lparr>File = Some \<lparr>Filename = infraEnvFilename,
                            Data = Document (document_with_arch ''unsupported-value'')\<rparr>,
              Config = Some \<lparr>ObjectMeta = zero_ObjectMeta,
                             Spec = zero_InfraEnvSpec\<lparr>CpuArchitecture := ''unsupported-value''\<rparr>\<rparr>\<rparr> =
       Some (errors_New ''Config.Spec.CpuArchitecture unsupported-value is not supported '')
   \<and> Load (serving (Document (document_with_arch ''unsupported-value'')))
        \<lparr>File = None, Config = Some (ostest_manifest [] ''x86_64'')\<rparr> =
       ((False, Some (errors_New
                  ''Config.Spec.CpuArchitecture unsupported-value is not supported '')),
        \<lparr>File = Some \<lparr>Filename = infraEnvFilename,
                       Data = Document (document_with_arch ''unsupported-value'')\<rparr>,
         Config = Some \<lparr>ObjectMeta = zero_ObjectMeta,
                        Spec = zero_InfraEnvSpec\<lparr>CpuArchitecture := ''unsupported-value''\<rparr>\<rparr>\<rparr>)"
proof -
  let ?fetched = "\<lparr>Filename = infraEnvFilename,
                   Data = Document (document_with_arch ''unsupported-value'')\<rparr>"
  let ?c = "\<lparr>ObjectMeta = zero_ObjectMeta,
             Spec = zero_InfraEnvSpec\<lparr>CpuArchitecture := ''unsupported-value''\<rparr>\<rparr>"
  have r: "RpmArch ''unsupported-value'' = ''unsupported-value''"
    by (simp add: RpmArch_def)
  have 1: "FetchByName (serving (Document (document_with_arch ''unsupported-value'')))
             infraEnvFilename = Inr ?fetched"
    by (rule Load_serving)
  have 2: "yaml_UnmarshalStrict (Data ?fetched) = Inr ?c"
    by (simp add: decode_document_with_arch)
  have d2: "yaml_UnmarshalStrict (Document (document_with_arch ''unsupported-value'')) = Inr ?c"
    by (rule decode_document_with_arch)
  have d3: "finish \<lparr>File = Some ?fetched, Config = Some ?c\<rparr> =
      Some (errors_New ''Config.Spec.CpuArchitecture unsupported-value is not supported '')"
    by (simp add: finish_Some)
  have 3: "finish \<lparr>File = Some ?fetched,
                   Config = Some (?c\<lparr>Spec := (Spec ?c)
                     \<lparr>CpuArchitecture := RpmArch (CpuArchitecture (Spec ?c))\<rparr>\<rparr>)\<rparr> =
      Some (errors_New ''Config.Spec.CpuArchitecture unsupported-value is not supported '')"
    by (simp add: finish_Some r)
  from Load_rejected_keeps_File_and_Config
         [OF 1 2 3, of "\<lparr>File = None, Config = Some (ostest_manifest [] ''x86_64'')\<rparr>"]
  have L: "Load (serving (Document (document_with_arch ''unsupported-value'')))
        \<lparr>File = None, Config = Some (ostest_manifest [] ''x86_64'')\<rparr> =
       ((False, Some (errors_New
                  ''Config.Spec.CpuArchitecture unsupported-value is not supported '')),
        \<lparr>File = Some ?fetched, Config = Some ?c\<rparr>)"
    by (simp add: r)
  from 1 d2 d3 L show ?thesis
    by (intro conjI)
qed

end
